theory Spec2Isabelle
  imports Main "HOL-Library.Multiset" "HOL-Library.Char_ord" "HOL-Library.List_Lexorder"
begin

section \<open>Python values used by the renamer\<close>

text \<open>
  Python strings are modelled as \<open>string\<close> (lists of 8-bit characters), so the model
  covers ASCII file names; \<open>str.lower\<close> is the ASCII lower-casing. Python integers are
  unbounded and are modelled as \<open>int\<close>; list lengths and loop indices are \<open>nat\<close>.
\<close>

datatype py_exc =
    KeyError | ValueError | IndexError | AttributeError | TypeError
  | FileNotFoundError | NotADirectoryError | IsADirectoryError | PermissionError | OSError
  | Unmodelled

text \<open>\<open>str(n)\<close> for a natural number: its decimal digits, most significant first.\<close>

definition digit_char :: "nat \<Rightarrow> char" where
  "digit_char d = ''0123456789'' ! d"

fun digits_of :: "nat \<Rightarrow> string" where
  "digits_of n = (if n < 10 then [digit_char n] else digits_of (n div 10) @ [digit_char (n mod 10)])"

declare digits_of.simps [simp del]

text \<open>\<open>str(i)\<close> for a Python integer.\<close>

definition str_int :: "int \<Rightarrow> string" where
  "str_int i = (if i < 0 then CHR ''-'' # digits_of (nat (- i)) else digits_of (nat i))"

text \<open>
  \<open>format(n, '0{w}d')\<close>, the format of the f-string \<open>f"{index+1:0{digits}d}"\<close>: the sign
  (only \<open>-\<close>) comes first, then zeros up to the total width \<open>w\<close>, then the digits.
\<close>

definition format_0d :: "nat \<Rightarrow> int \<Rightarrow> string" where
  "format_0d w n =
     (let sign = (if n < 0 then ''-'' else '''');
          ds = digits_of (nat \<bar>n\<bar>)
      in sign @ replicate (w - length sign - length ds) CHR ''0'' @ ds)"

text \<open>\<open>str.lower()\<close> on ASCII and \<open>str.lstrip('.')\<close>.\<close>

definition lower_char :: "char \<Rightarrow> char" where
  "lower_char c =
     (case map_of (zip ''ABCDEFGHIJKLMNOPQRSTUVWXYZ'' ''abcdefghijklmnopqrstuvwxyz'') c of
        Some d \<Rightarrow> d
      | None \<Rightarrow> c)"

definition lower :: "string \<Rightarrow> string" where
  "lower s = map lower_char s"

definition lstrip_dot :: "string \<Rightarrow> string" where
  "lstrip_dot s = dropWhile (\<lambda>c. c = CHR ''.'') s"

section \<open>pathlib: pure paths\<close>

text \<open>
  A \<open>Path\<close> is the list of its components (pathlib's parts), counted from the root
  directory, which is the empty list; the process's working directory is taken to be the
  root, so a relative and an absolute spelling denote the same path.
  \<open>split_sep\<close> is \<open>str.split('/')\<close>; \<open>parse_parts\<close> drops the empty and the \<open>.\<close>
  components, as pathlib's parser does.
\<close>

type_synonym path = "string list"

fun split_sep :: "string \<Rightarrow> string \<Rightarrow> string list" where
  "split_sep acc [] = [acc]"
| "split_sep acc (c # s) = (if c = CHR ''/'' then acc # split_sep [] s else split_sep (acc @ [c]) s)"

definition parse_parts :: "string \<Rightarrow> path" where
  "parse_parts s = filter (\<lambda>x. x \<noteq> [] \<and> x \<noteq> ''.'') (split_sep [] s)"

text \<open>\<open>Path.name\<close> and \<open>Path.parent\<close>.\<close>

definition name :: "path \<Rightarrow> string" where
  "name p = (if p = [] then [] else last p)"

definition parent :: "path \<Rightarrow> path" where
  "parent p = butlast p"

text \<open>\<open>parent / new_name\<close>: an absolute right operand replaces the left one.\<close>

definition joinpath :: "path \<Rightarrow> string \<Rightarrow> path" where
  "joinpath p s = (if s \<noteq> [] \<and> hd s = CHR ''/'' then parse_parts s else p @ parse_parts s)"

text \<open>
  \<open>str.rfind('.')\<close> as an option, and pathlib's \<open>suffix\<close> and \<open>stem\<close> of a file name
  (the rule of CPython up to 3.13): with \<open>i = name.rfind('.')\<close>, the name is split at
  \<open>i\<close> when \<open>0 < i < len(name) - 1\<close>, and has no suffix otherwise.
\<close>

fun rfind_dot :: "string \<Rightarrow> nat option" where
  "rfind_dot [] = None"
| "rfind_dot (c # s) =
     (case rfind_dot s of
        Some i \<Rightarrow> Some (Suc i)
      | None \<Rightarrow> if c = CHR ''.'' then Some 0 else None)"

definition name_suffix :: "string \<Rightarrow> string" where
  "name_suffix nm =
     (case rfind_dot nm of
        Some i \<Rightarrow> if 0 < i \<and> i + 1 < length nm then drop i nm else []
      | None \<Rightarrow> [])"

definition name_stem :: "string \<Rightarrow> string" where
  "name_stem nm =
     (case rfind_dot nm of
        Some i \<Rightarrow> if 0 < i \<and> i + 1 < length nm then take i nm else nm
      | None \<Rightarrow> nm)"

text \<open>
  \<open>Path(original_name).stem\<close> and \<open>.suffix\<close>: the string is parsed as a path first and
  its last component is split.
\<close>

definition py_stem :: "string \<Rightarrow> string" where
  "py_stem s = name_stem (name (parse_parts s))"

definition py_suffix :: "string \<Rightarrow> string" where
  "py_suffix s = name_suffix (name (parse_parts s))"

section \<open>The file system\<close>

text \<open>
  The file system is a finite table from resolved paths to nodes; the order of the table
  is the order in which the operating system enumerates entries, which the program must
  not depend on. A regular file carries an identifier of its contents. \<open>readonly\<close> lists
  the directories in which entries can be neither created nor removed.
  There are no symbolic links, and nothing but the program changes the table.
\<close>

datatype node = File nat | Dir | Special

record filesystem =
  entries :: "(path \<times> node) list"
  readonly :: "path list"

definition node_at :: "filesystem \<Rightarrow> path \<Rightarrow> node option" where
  "node_at fs p = (if p = [] then Some Dir else map_of (entries fs) p)"

text \<open>
  Path resolution by the kernel: every component is looked up in a directory; \<open>..\<close>
  steps to the parent (the root is its own parent). The last component need not exist.
\<close>

fun walk :: "filesystem \<Rightarrow> path \<Rightarrow> string list \<Rightarrow> py_exc + path" where
  "walk fs cur [] = Inr cur"
| "walk fs cur (c # cs) =
     (case node_at fs cur of
        None \<Rightarrow> Inl FileNotFoundError
      | Some Dir \<Rightarrow> if c = ''..'' then walk fs (butlast cur) cs else walk fs (cur @ [c]) cs
      | Some _ \<Rightarrow> Inl NotADirectoryError)"

definition resolve :: "filesystem \<Rightarrow> path \<Rightarrow> py_exc + path" where
  "resolve fs p = walk fs [] p"

definition stat :: "filesystem \<Rightarrow> path \<Rightarrow> node option" where
  "stat fs p = (case resolve fs p of Inl e \<Rightarrow> None | Inr q \<Rightarrow> node_at fs q)"

text \<open>\<open>Path.exists()\<close>, \<open>Path.is_dir()\<close>, \<open>Path.is_file()\<close>.\<close>

definition exists_path :: "filesystem \<Rightarrow> path \<Rightarrow> bool" where
  "exists_path fs p = (stat fs p \<noteq> None)"

definition is_dir :: "filesystem \<Rightarrow> path \<Rightarrow> bool" where
  "is_dir fs p = (stat fs p = Some Dir)"

definition is_file :: "filesystem \<Rightarrow> path \<Rightarrow> bool" where
  "is_file fs p = (case stat fs p of Some (File c) \<Rightarrow> True | _ \<Rightarrow> False)"

text \<open>
  \<open>Path.iterdir()\<close> yields the children of the directory, \<open>Path.rglob('*')\<close> everything
  below it; both spell each result as the given path followed by the relative part, in
  the table's order.
\<close>

definition iterdir :: "filesystem \<Rightarrow> path \<Rightarrow> path list" where
  "iterdir fs t =
     (case resolve fs t of
        Inl e \<Rightarrow> []
      | Inr r \<Rightarrow> map (\<lambda>(p, n). t @ [last p])
                 (filter (\<lambda>(p, n). p \<noteq> [] \<and> butlast p = r) (entries fs)))"

definition rglob :: "filesystem \<Rightarrow> path \<Rightarrow> path list" where
  "rglob fs t =
     (case resolve fs t of
        Inl e \<Rightarrow> []
      | Inr r \<Rightarrow> map (\<lambda>(p, n). t @ drop (length r) p)
                 (filter (\<lambda>(p, n). length r < length p \<and> take (length r) p = r) (entries fs)))"

text \<open>
  \<open>os.rename(src, dst)\<close> on POSIX. It fails when the source is missing, when a directory
  on the way to the destination is missing, when one of the two parent directories is
  read-only, and when the kinds of source and destination do not fit; otherwise the entry
  at the destination, if there is one, is replaced: this is the overwrite that the
  program has to prevent.
\<close>

definition move_entry :: "path \<Rightarrow> path \<Rightarrow> path \<times> node \<Rightarrow> path \<times> node" where
  "move_entry s d e =
     (if take (length s) (fst e) = s then (d @ drop (length s) (fst e), snd e) else e)"

definition os_rename :: "filesystem \<Rightarrow> path \<Rightarrow> path \<Rightarrow> py_exc + filesystem" where
  "os_rename fs src dst =
     (case resolve fs src of
        Inl e \<Rightarrow> Inl e
      | Inr s \<Rightarrow>
         (case map_of (entries fs) s of
            None \<Rightarrow> (if s = [] then Inl OSError else Inl FileNotFoundError)
          | Some n \<Rightarrow>
             (case resolve fs dst of
                Inl e \<Rightarrow> Inl e
              | Inr d \<Rightarrow>
                  if s = [] \<or> d = [] then Inl OSError
                  else if butlast s \<in> set (readonly fs) \<or> butlast d \<in> set (readonly fs)
                    then Inl PermissionError
                  else if s = d then Inr fs
                  else if take (length s) d = s then Inl OSError
                  else
                    (case map_of (entries fs) d of
                       None \<Rightarrow> Inr (fs\<lparr>entries := map (move_entry s d) (entries fs)\<rparr>)
                     | Some m \<Rightarrow>
                         if n = Dir \<and> m \<noteq> Dir then Inl NotADirectoryError
                         else if n \<noteq> Dir \<and> m = Dir then Inl IsADirectoryError
                         else if m = Dir \<and> list_ex (\<lambda>p. length d < length p \<and> take (length d) p = d)
                                    (map fst (entries fs))
                           then Inl OSError
                         else Inr (fs\<lparr>entries := map (move_entry s d)
                                     (filter (\<lambda>e. fst e \<noteq> d) (entries fs))\<rparr>)))))"

section \<open>FileRenamer\<close>

text \<open>The fields of a \<open>FileRenamer\<close>, as \<open>__init__\<close> stores them.\<close>

record options =
  prefix :: string
  suffix :: string
  add_number :: bool
  new_ext :: "string option"
  pattern :: string
  recursive :: bool
  filter_ext :: "string list option"
  dry_run :: bool

text \<open>
  \<open>FileRenamer.__init__\<close>: the new extension and the filter are lower-cased and lose their
  leading dots; an empty \<open>new_ext\<close> and an empty or missing \<open>filter_ext\<close> become \<open>None\<close>.
\<close>

definition init ::
  "string \<Rightarrow> string \<Rightarrow> bool \<Rightarrow> string \<Rightarrow> string \<Rightarrow> bool \<Rightarrow> string list option \<Rightarrow> bool \<Rightarrow> options"
where
  "init prefix' suffix' add_number' new_ext' pattern' recursive' filter_ext' dry_run' =
     \<lparr> prefix = prefix',
       suffix = suffix',
       add_number = add_number',
       new_ext = (if new_ext' \<noteq> [] then Some (lstrip_dot (lower new_ext')) else None),
       pattern = pattern',
       recursive = recursive',
       filter_ext =
         (case filter_ext' of
            None \<Rightarrow> None
          | Some exts \<Rightarrow>
              if exts \<noteq> [] then Some (map (\<lambda>ext. lstrip_dot (lower ext)) exts) else None),
       dry_run = dry_run' \<rparr>"

subsection \<open>The built-in \<open>str.format\<close>\<close>

text \<open>
  \<open>pattern.format(index=index, original=stem, total=total)\<close> is a call of the built-in
  \<open>str.format\<close> with three keyword arguments and no positional one. The scanning of the
  template follows CPython's \<open>MarkupIterator_next\<close> and \<open>parse_field\<close>: literal text with
  the escapes \<open>{{\<close> and \<open>}}\<close>, and replacement fields \<open>{name!conversion:spec}\<close>, where a
  spec may contain nested fields. Every syntax error of a template is a \<open>ValueError\<close>.
  A scan yields the segments before the first syntax error, and that error if there is one.
\<close>

datatype segment = Literal string | Field string "char option" string bool

datatype scan_mode =
    InLiteral
  | InName string
  | InBracket string
  | AfterBang string
  | AfterConv string char
  | InSpec string "char option" string nat bool

definition emit :: "segment \<Rightarrow> segment list \<times> py_exc option \<Rightarrow> segment list \<times> py_exc option" where
  "emit seg r = (seg # fst r, snd r)"

fun scan :: "scan_mode \<Rightarrow> string \<Rightarrow> segment list \<times> py_exc option" where
  "scan InLiteral [] = ([], None)"
| "scan InLiteral [c] =
     (if c = CHR ''{'' \<or> c = CHR ''}'' then ([], Some ValueError)
      else emit (Literal [c]) ([], None))"
| "scan InLiteral (c # d # s) =
     (if c = CHR ''{'' then
        (if d = CHR ''{'' then emit (Literal [c]) (scan InLiteral s) else scan (InName []) (d # s))
      else if c = CHR ''}'' then
        (if d = CHR ''}'' then emit (Literal [c]) (scan InLiteral s) else ([], Some ValueError))
      else emit (Literal [c]) (scan InLiteral (d # s)))"
| "scan (InName nm) [] = ([], Some ValueError)"
| "scan (InName nm) (c # s) =
     (if c = CHR ''{'' then ([], Some ValueError)
      else if c = CHR ''['' then scan (InBracket (nm @ [c])) s
      else if c = CHR ''}'' then emit (Field nm None [] False) (scan InLiteral s)
      else if c = CHR '':'' then scan (InSpec nm None [] 1 False) s
      else if c = CHR ''!'' then scan (AfterBang nm) s
      else scan (InName (nm @ [c])) s)"
| "scan (InBracket nm) [] = ([], Some ValueError)"
| "scan (InBracket nm) (c # s) =
     (if c = CHR '']'' then scan (InName (nm @ [c])) s else scan (InBracket (nm @ [c])) s)"
| "scan (AfterBang nm) [] = ([], Some ValueError)"
| "scan (AfterBang nm) (c # s) = scan (AfterConv nm c) s"
| "scan (AfterConv nm cv) [] = ([], Some ValueError)"
| "scan (AfterConv nm cv) (c # s) =
     (if c = CHR ''}'' then emit (Field nm (Some cv) [] False) (scan InLiteral s)
      else if c = CHR '':'' then scan (InSpec nm (Some cv) [] 1 False) s
      else ([], Some ValueError))"
| "scan (InSpec nm cv sp n ex) [] = ([], Some ValueError)"
| "scan (InSpec nm cv sp n ex) (c # s) =
     (if c = CHR ''{'' then scan (InSpec nm cv (sp @ [c]) (Suc n) True) s
      else if c = CHR ''}'' then
        (if n = 1 then emit (Field nm cv sp ex) (scan InLiteral s)
         else scan (InSpec nm cv (sp @ [c]) (n - 1) ex) s)
      else scan (InSpec nm cv (sp @ [c]) n ex) s)"

text \<open>
  The arguments are Python objects; the three keyword arguments are two integers and a
  string. What an object does when an attribute or an item of it is taken, when it is
  converted (\<open>!r\<close>, \<open>!s\<close>, \<open>!a\<close>) and when it is formatted with a spec is the object
  protocol of the interpreter: it is a parameter of the model, \<open>'o\<close> being the objects
  that attribute access can reach.
\<close>

datatype pyval = PyInt int | PyStr string

record 'o protocol =
  get_rest :: "pyval \<Rightarrow> string \<Rightarrow> py_exc + 'o"
  convert :: "'o \<Rightarrow> char \<Rightarrow> py_exc + 'o"
  format_obj :: "'o \<Rightarrow> string \<Rightarrow> py_exc + string"

definition kwargs :: "int \<Rightarrow> string \<Rightarrow> int \<Rightarrow> string \<Rightarrow> pyval option" where
  "kwargs index original total' key =
     (if key = ''index'' then Some (PyInt index)
      else if key = ''original'' then Some (PyStr original)
      else if key = ''total'' then Some (PyInt total')
      else None)"

text \<open>
  \<open>get_integer\<close> on the first part of a field name: \<open>None\<close> for a name that is not a
  number; a number that does not fit \<open>Py_ssize_t\<close> (64 bits here) is a \<open>ValueError\<close>,
  raised as soon as the digits read so far overflow.
\<close>

definition is_digit :: "char \<Rightarrow> bool" where
  "is_digit c = (c \<in> set ''0123456789'')"

definition digit_val :: "char \<Rightarrow> int" where
  "digit_val c = int (length (takeWhile (\<lambda>d. d \<noteq> c) ''0123456789''))"

fun get_integer_from :: "int \<Rightarrow> string \<Rightarrow> py_exc + int option" where
  "get_integer_from acc [] = Inr (Some acc)"
| "get_integer_from acc (c # s) =
     (if \<not> is_digit c then Inr None
      else if acc > (9223372036854775807 - digit_val c) div 10 then Inl ValueError
      else get_integer_from (acc * 10 + digit_val c) s)"

definition get_integer :: "string \<Rightarrow> py_exc + int option" where
  "get_integer s = (if s = [] then Inr None else get_integer_from 0 s)"

text \<open>
  One replacement field (\<open>output_markup\<close>): the first part of the name is looked up; an
  empty or numeric first part asks for a positional argument, and there is none; then
  the rest of the name, the conversion, the nested fields of the spec (\<open>expand\<close>) and
  the formatting itself, in this order.
\<close>

definition is_name_end :: "char \<Rightarrow> bool" where
  "is_name_end c = (c = CHR ''.'' \<or> c = CHR ''['')"

definition output_markup ::
  "'o protocol \<Rightarrow> (string \<Rightarrow> pyval option) \<Rightarrow> (string \<Rightarrow> py_exc + string) \<Rightarrow>
   string \<Rightarrow> char option \<Rightarrow> string \<Rightarrow> bool \<Rightarrow> py_exc + string"
where
  "output_markup lib kw expand field_name conversion format_spec needs_expanding =
     (let first = takeWhile (\<lambda>c. \<not> is_name_end c) field_name;
          rest = dropWhile (\<lambda>c. \<not> is_name_end c) field_name
      in case get_integer first of
           Inl e \<Rightarrow> Inl e
         | Inr (Some i) \<Rightarrow> Inl IndexError
         | Inr None \<Rightarrow>
             if first = [] then Inl IndexError
             else
               (case kw first of
                  None \<Rightarrow> Inl KeyError
                | Some v \<Rightarrow>
                   (case get_rest lib v rest of
                      Inl e \<Rightarrow> Inl e
                    | Inr obj \<Rightarrow>
                       (case (case conversion of
                                None \<Rightarrow> Inr obj
                              | Some c \<Rightarrow> convert lib obj c) of
                          Inl e \<Rightarrow> Inl e
                        | Inr obj' \<Rightarrow>
                           (case (if needs_expanding then expand format_spec
                                  else Inr format_spec) of
                              Inl e \<Rightarrow> Inl e
                            | Inr spec \<Rightarrow> format_obj lib obj' spec)))))"

text \<open>
  \<open>do_markup\<close>: the segments are written in order; the first failing field ends the call,
  and a syntax error is raised once the segments before it are written.
\<close>

fun do_markup ::
  "(segment \<Rightarrow> py_exc + string) \<Rightarrow> segment list \<Rightarrow> py_exc option \<Rightarrow> py_exc + string"
where
  "do_markup out [] None = Inr []"
| "do_markup out [] (Some e) = Inl e"
| "do_markup out (seg # segs) err =
     (case out seg of
        Inl e \<Rightarrow> Inl e
      | Inr t \<Rightarrow> (case do_markup out segs err of Inl e \<Rightarrow> Inl e | Inr u \<Rightarrow> Inr (t @ u)))"

definition out_segment ::
  "'o protocol \<Rightarrow> (string \<Rightarrow> pyval option) \<Rightarrow> (string \<Rightarrow> py_exc + string) \<Rightarrow>
   segment \<Rightarrow> py_exc + string"
where
  "out_segment lib kw expand seg =
     (case seg of
        Literal t \<Rightarrow> Inr t
      | Field nm cv sp ex \<Rightarrow> output_markup lib kw expand nm cv sp ex)"

text \<open>
  \<open>build_string\<close> with its recursion depth: \<open>str.format\<close> starts at depth 2, so a spec may
  hold fields, and a spec inside such a field may not.
\<close>

primrec build_string ::
  "'o protocol \<Rightarrow> (string \<Rightarrow> pyval option) \<Rightarrow> nat \<Rightarrow> string \<Rightarrow> py_exc + string"
where
  "build_string lib kw 0 = (\<lambda>s. Inl ValueError)"
| "build_string lib kw (Suc depth) =
     (\<lambda>s. do_markup (out_segment lib kw (build_string lib kw depth))
            (fst (scan InLiteral s)) (snd (scan InLiteral s)))"

definition py_format :: "'o protocol \<Rightarrow> string \<Rightarrow> int \<Rightarrow> string \<Rightarrow> int \<Rightarrow> py_exc + string" where
  "py_format lib template index original total' =
     build_string lib (kwargs index original total') 2 template"

text \<open>
  A protocol that covers fields without attribute or item access and without conversion,
  with the specs \<open>''\<close> (\<open>str\<close> of the value) and, for an integer, \<open>0<width>d\<close>; outside
  of these it answers \<open>Unmodelled\<close>, which is no Python exception.
\<close>

definition plain_spec :: "string \<Rightarrow> nat option" where
  "plain_spec spec =
     (if 2 < length spec \<and> hd spec = CHR ''0'' \<and> last spec = CHR ''d''
         \<and> list_all is_digit (butlast (tl spec))
      then (case get_integer (butlast (tl spec)) of Inr (Some w) \<Rightarrow> Some (nat w) | _ \<Rightarrow> None)
      else None)"

definition plain_protocol :: "pyval protocol" where
  "plain_protocol =
     \<lparr> get_rest = (\<lambda>v rest. if rest = [] then Inr v else Inl Unmodelled),
       convert = (\<lambda>v c. Inl Unmodelled),
       format_obj = (\<lambda>v spec.
         case v of
           PyStr t \<Rightarrow> if spec = [] then Inr t else Inl Unmodelled
         | PyInt i \<Rightarrow>
             if spec = [] then Inr (str_int i)
             else (case plain_spec spec of Some w \<Rightarrow> Inr (format_0d w i) | None \<Rightarrow> Inl Unmodelled)) \<rparr>"

subsection \<open>Logging\<close>

text \<open>The log lines of the module, by call site; an exception stands for its message.\<close>

datatype level = DEBUG | INFO | WARNING | ERROR

datatype log_event =
    PatternError py_exc
  | SkipSame string
  | SkipExists string
  | Preview string string
  | Changed string string
  | RenameFailed string py_exc
  | ProcessError string py_exc
  | TotalFiles nat

fun level_of :: "log_event \<Rightarrow> level" where
  "level_of (PatternError e) = WARNING"
| "level_of (SkipSame n) = DEBUG"
| "level_of (SkipExists n) = WARNING"
| "level_of (Preview n m) = INFO"
| "level_of (Changed n m) = INFO"
| "level_of (RenameFailed n e) = ERROR"
| "level_of (ProcessError n e) = ERROR"
| "level_of (TotalFiles n) = INFO"

subsection \<open>The methods\<close>

text \<open>
  \<open>_should_process_file\<close>. \<open>if self.filter_ext\<close> is Python truthiness: the list is there
  and not empty.
\<close>

definition should_process_file :: "options \<Rightarrow> filesystem \<Rightarrow> path \<Rightarrow> bool" where
  "should_process_file opts fs file_path =
     (if \<not> is_file fs file_path then False
      else
        (case filter_ext opts of
           None \<Rightarrow> True
         | Some exts \<Rightarrow>
             if exts \<noteq> [] then
               (let file_ext = lstrip_dot (lower (name_suffix (name file_path)))
                in if file_ext \<notin> set exts then False else True)
             else True))"

text \<open>
  \<open>_generate_new_name\<close>, lines 92 to 116: the default name. \<open>if self.prefix\<close>,
  \<open>if self.suffix\<close> and \<open>if self.new_ext\<close> are Python truthiness.
\<close>

definition default_name :: "options \<Rightarrow> string \<Rightarrow> string \<Rightarrow> int \<Rightarrow> int \<Rightarrow> string" where
  "default_name opts stem ext index total' =
     (let new_stem = stem;
          new_stem = (if prefix opts \<noteq> [] then prefix opts @ new_stem else new_stem);
          new_stem =
            (if add_number opts then
               (let digits = length (str_int total');
                    number_format = ''_'' @ format_0d digits (index + 1)
                in new_stem @ number_format)
             else new_stem);
          new_stem = (if suffix opts \<noteq> [] then new_stem @ suffix opts else new_stem);
          new_ext' =
            (case new_ext opts of
               None \<Rightarrow> ext
             | Some e \<Rightarrow> if e \<noteq> [] then ''.'' @ e else ext)
      in new_stem @ new_ext')"

text \<open>
  \<open>_generate_new_name\<close>: the name, or the exception that leaves the method, and the
  lines it logs. \<open>except (KeyError, ValueError)\<close> handles these two classes only.
\<close>

definition generate_new_name ::
  "'o protocol \<Rightarrow> options \<Rightarrow> string \<Rightarrow> int \<Rightarrow> int \<Rightarrow> (py_exc + string) \<times> log_event list"
where
  "generate_new_name lib opts original_name index total' =
     (let stem = py_stem original_name;
          ext = py_suffix original_name
      in if pattern opts \<noteq> [] then
           (case py_format lib (pattern opts) index stem total' of
              Inr new_name \<Rightarrow>
                (case new_ext opts of
                   None \<Rightarrow> (Inr (new_name @ ext), [])
                 | Some e \<Rightarrow>
                     if e \<noteq> [] then (Inr (new_name @ ''.'' @ e), [])
                     else (Inr (new_name @ ext), []))
            | Inl e \<Rightarrow>
                if e = KeyError \<or> e = ValueError
                then (Inr (default_name opts stem ext index total'), [PatternError e])
                else (Inl e, []))
         else (Inr (default_name opts stem ext index total'), []))"

text \<open>
  \<open>_rename_file\<close>: the returned flag, the file system after the call and the lines
  logged. Every exception of the body is caught by \<open>except Exception\<close>.
\<close>

definition rename_file ::
  "options \<Rightarrow> filesystem \<Rightarrow> path \<Rightarrow> string \<Rightarrow> bool \<times> filesystem \<times> log_event list"
where
  "rename_file opts fs file_path new_name =
     (let new_path = joinpath (parent file_path) new_name
      in if name file_path = new_name then (False, fs, [SkipSame (name file_path)])
         else if exists_path fs new_path then (False, fs, [SkipExists new_name])
         else if dry_run opts then (True, fs, [Preview (name file_path) new_name])
         else
           (case os_rename fs file_path new_path of
              Inr fs' \<Rightarrow> (True, fs', [Changed (name file_path) new_name])
            | Inl e \<Rightarrow> (False, fs, [RenameFailed (name file_path) e])))"

text \<open>
  The state of \<open>rename_files\<close>: the four counters of the result, the file system and the
  log. \<open>generated\<close> is an observation, not a variable of the program: what
  \<open>_generate_new_name\<close> gave for each index and file, in the order of the loop.
\<close>

record run =
  total_files :: nat
  renamed :: nat
  skipped :: nat
  errors :: nat
  disk :: filesystem
  logged :: "log_event list"
  generated :: "(nat \<times> path \<times> (py_exc + string)) list"

text \<open>The body of the loop of \<open>rename_files\<close>, for one index and file.\<close>

definition loop_body :: "'o protocol \<Rightarrow> options \<Rightarrow> nat \<Rightarrow> path \<Rightarrow> run \<Rightarrow> run" where
  "loop_body lib opts index file_path st =
     (let g = generate_new_name lib opts (name file_path) (int index) (int (total_files st));
          st = st\<lparr>logged := logged st @ snd g,
                  generated := generated st @ [(index, file_path, fst g)]\<rparr>
      in case fst g of
           Inl e \<Rightarrow>
             st\<lparr>errors := errors st + 1,
                logged := logged st @ [ProcessError (name file_path) e]\<rparr>
         | Inr new_name \<Rightarrow>
             (let r = rename_file opts (disk st) file_path new_name;
                  st = st\<lparr>disk := fst (snd r), logged := logged st @ snd (snd r)\<rparr>
              in if fst r then st\<lparr>renamed := renamed st + 1\<rparr>
                 else st\<lparr>skipped := skipped st + 1\<rparr>))"

fun rename_loop :: "'o protocol \<Rightarrow> options \<Rightarrow> nat \<Rightarrow> path list \<Rightarrow> run \<Rightarrow> run" where
  "rename_loop lib opts index [] st = st"
| "rename_loop lib opts index (file_path # files) st =
     rename_loop lib opts (Suc index) files (loop_body lib opts index file_path st)"

text \<open>The sorted list of the files to process; \<open>Path\<close> objects compare by their parts.\<close>

definition collect_files :: "options \<Rightarrow> filesystem \<Rightarrow> path \<Rightarrow> path list" where
  "collect_files opts fs target_path =
     sort (filter (should_process_file opts fs)
             (if recursive opts then rglob fs target_path else iterdir fs target_path))"

text \<open>\<open>rename_files\<close>: the \<open>ValueError\<close> for a target that is no directory, or the run.\<close>

definition rename_files :: "'o protocol \<Rightarrow> options \<Rightarrow> filesystem \<Rightarrow> path \<Rightarrow> py_exc + run" where
  "rename_files lib opts fs0 target_path =
     (if \<not> is_dir fs0 target_path then Inl ValueError
      else
        (let files = collect_files opts fs0 target_path;
             total' = length files
         in Inr (rename_loop lib opts 0 files
                   \<lparr> total_files = total', renamed = 0, skipped = 0, errors = 0, disk = fs0,
                     logged = [TotalFiles total'], generated = [] \<rparr>)))"

section \<open>The command line\<close>

text \<open>
  \<open>main\<close> in \<open>xrename.py\<close>, after \<open>rename_files\<close> has returned: the lines printed on
  standard output, one per \<open>print\<close>, and the exit status.
\<close>

definition summary :: "bool \<Rightarrow> run \<Rightarrow> string list" where
  "summary dry_run' result =
     (if dry_run' then
        [[CHR 0x0A] @ ''[Preview mode] '' @ str_int (int (total_files result))
           @ '' files are expected to be changed.'']
      else
        [[CHR 0x0A] @ ''Successfully changed the names of '' @ str_int (int (renamed result))
           @ '' files.'']
        @ (if skipped result > 0
           then [str_int (int (skipped result)) @ '' files were skipped.''] else [])
        @ (if errors result > 0
           then [str_int (int (errors result)) @ '' files processing failed.''] else []))"

definition exit_status :: "run \<Rightarrow> nat" where
  "exit_status result = (if errors result = 0 then 0 else 1)"

section \<open>Notions used in the statements\<close>



text \<open>
  The numbering as the specification words it: the width is the number of decimal digits
  of the total, and the number is padded with zeros on the left up to that width.
\<close>

fun decimal_width :: "nat \<Rightarrow> nat" where
  "decimal_width n = (if n < 10 then 1 else Suc (decimal_width (n div 10)))"

declare decimal_width.simps [simp del]

definition zero_padded :: "nat \<Rightarrow> nat \<Rightarrow> string" where
  "zero_padded w n = replicate (w - length (digits_of n)) CHR ''0'' @ digits_of n"


subsection \<open>Example directories\<close>




definition dir_a :: filesystem where
  "dir_a = \<lparr> entries = [([''d''], Dir), ([''d'', ''a.txt''], File 1)], readonly = [] \<rparr>"

definition dir_a_readonly :: filesystem where
  "dir_a_readonly =
     \<lparr> entries = [([''d''], Dir), ([''d'', ''a.txt''], File 1)], readonly = [[''d'']] \<rparr>"

definition dir_collide :: filesystem where
  "dir_collide =
     \<lparr> entries = [([''d''], Dir), ([''d'', ''a.txt''], File 1), ([''d'', ''N_a.txt''], File 2)],
       readonly = [] \<rparr>"

definition dir_dot :: filesystem where
  "dir_dot =
     \<lparr> entries = [([''d''], Dir), ([''d'', ''.gitignore''], File 1)], readonly = [] \<rparr>"

text \<open>The state of a run at its start.\<close>

definition start :: "filesystem \<Rightarrow> nat \<Rightarrow> run" where
  "start fs0 total' =
     \<lparr> total_files = total', renamed = 0, skipped = 0, errors = 0, disk = fs0,
       logged = [TotalFiles total'], generated = [] \<rparr>"

section \<open>The loop of \<open>rename_files\<close>\<close>

lemma rename_files_Inr:
  "rename_files lib opts fs0 target_path = Inr result \<Longrightarrow>
     is_dir fs0 target_path \<and>
     result = rename_loop lib opts 0 (collect_files opts fs0 target_path)
                (start fs0 (length (collect_files opts fs0 target_path)))"
  by (simp add: rename_files_def start_def Let_def split: if_splits)

lemma loop_body_total_files:
  "total_files (loop_body lib opts index file_path st) = total_files st"
  by (simp add: loop_body_def Let_def split: sum.splits)

lemma loop_body_counts:
  "renamed (loop_body lib opts index file_path st)
     + skipped (loop_body lib opts index file_path st)
     + errors (loop_body lib opts index file_path st)
   = renamed st + skipped st + errors st + 1"
  by (simp add: loop_body_def Let_def split: sum.splits)

lemma loop_body_one_bucket:
  "(renamed (loop_body lib opts i p st), skipped (loop_body lib opts i p st),
    errors (loop_body lib opts i p st))
   \<in> {(renamed st + 1, skipped st, errors st), (renamed st, skipped st + 1, errors st),
       (renamed st, skipped st, errors st + 1)}"
  by (simp add: loop_body_def Let_def split: sum.splits)

lemma rename_loop_total_files:
  "total_files (rename_loop lib opts index files st) = total_files st"
  by (induction files arbitrary: index st) (simp_all add: loop_body_total_files)

lemma rename_loop_counts:
  "renamed (rename_loop lib opts index files st) + skipped (rename_loop lib opts index files st)
     + errors (rename_loop lib opts index files st)
   = renamed st + skipped st + errors st + length files"
proof (induction files arbitrary: index st)
  case Nil
  show ?case by simp
next
  case (Cons file_path files)
  show ?case
    using Cons.IH [of "Suc index" "loop_body lib opts index file_path st"]
      loop_body_counts [of lib opts index file_path st]
    by simp
qed

subsection \<open>Evaluated runs\<close>

lemma run_collide:
  "rename_files plain_protocol (init ''N_'' [] False [] [] False None False) dir_collide [''d'']
   = Inr \<lparr> total_files = 2, renamed = 2, skipped = 0, errors = 0,
           disk = \<lparr> entries = [([''d''], Dir), ([''d'', ''N_a.txt''], File 1),
                                ([''d'', ''N_N_a.txt''], File 2)],
                    readonly = [] \<rparr>,
           logged = [TotalFiles 2, Changed ''N_a.txt'' ''N_N_a.txt'',
                     Changed ''a.txt'' ''N_a.txt''],
           generated = [(0, [''d'', ''N_a.txt''], Inr ''N_N_a.txt''),
                        (1, [''d'', ''a.txt''], Inr ''N_a.txt'')] \<rparr>"
  by code_simp

section \<open>The count invariant\<close>

text \<open>
  Claim C2. Every run of \<open>rename_files\<close> that returns a result satisfies
  \<open>total = renamed + skipped + errors\<close>, where \<open>total\<close> is the number of files collected;
  each pass of the loop adds one to exactly one of the three counters.
\<close>

theorem count_invariant:
  "(rename_files lib opts fs0 target_path = Inr result \<longrightarrow>
      total_files result = renamed result + skipped result + errors result
      \<and> total_files result = length (collect_files opts fs0 target_path))
   \<and> (renamed (loop_body lib opts i p st), skipped (loop_body lib opts i p st),
       errors (loop_body lib opts i p st))
      \<in> {(renamed st + 1, skipped st, errors st), (renamed st, skipped st + 1, errors st),
          (renamed st, skipped st, errors st + 1)}"
proof (intro conjI impI)
  assume run: "rename_files lib opts fs0 target_path = Inr result"
  let ?files = "collect_files opts fs0 target_path"
  have result: "result = rename_loop lib opts 0 ?files (start fs0 (length ?files))"
    using rename_files_Inr [OF run] by simp
  show total: "total_files result = length ?files"
    by (simp add: result rename_loop_total_files start_def)
  have "renamed result + skipped result + errors result = length ?files"
    using rename_loop_counts [of lib opts 0 ?files "start fs0 (length ?files)"]
    by (simp add: result start_def)
  with total show "total_files result = renamed result + skipped result + errors result"
    by simp
next
  show "(renamed (loop_body lib opts i p st), skipped (loop_body lib opts i p st),
         errors (loop_body lib opts i p st))
        \<in> {(renamed st + 1, skipped st, errors st), (renamed st, skipped st + 1, errors st),
            (renamed st, skipped st, errors st + 1)}"
    by (rule loop_body_one_bucket)
qed

theorem count_invariant_witness:
  "rename_files plain_protocol (init ''N_'' [] False [] [] False None False) dir_collide [''d'']
     = Inr \<lparr> total_files = 2, renamed = 2, skipped = 0, errors = 0,
             disk = \<lparr> entries = [([''d''], Dir), ([''d'', ''N_a.txt''], File 1),
                                  ([''d'', ''N_N_a.txt''], File 2)],
                      readonly = [] \<rparr>,
             logged = [TotalFiles 2, Changed ''N_a.txt'' ''N_N_a.txt'',
                       Changed ''a.txt'' ''N_a.txt''],
             generated = [(0, [''d'', ''N_a.txt''], Inr ''N_N_a.txt''),
                          (1, [''d'', ''a.txt''], Inr ''N_a.txt'')] \<rparr>
   \<and> (2::nat) = 2 + 0 + 0
   \<and> length (collect_files (init ''N_'' [] False [] [] False None False) dir_collide [''d'']) = 2"
  using run_collide
    count_invariant [THEN conjunct1, rule_format, OF run_collide]
  by simp

section \<open>Collision safety\<close>












section \<open>Dry runs\<close>




















section \<open>Deterministic order\<close>
















section \<open>The extension filter\<close>







section \<open>The default rule\<close>

lemma length_digits_of: "length (digits_of n) = decimal_width n"
proof (induction n rule: digits_of.induct)
  case (1 n)
  show ?case
  proof (cases "n < 10")
    case True
    then show ?thesis
      by (simp add: digits_of.simps [of n] decimal_width.simps [of n])
  next
    case False
    with "1" show ?thesis
      by (simp add: digits_of.simps [of n] decimal_width.simps [of n])
  qed
qed

lemma length_str_int: "0 \<le> t \<Longrightarrow> length (str_int t) = decimal_width (nat t)"
  by (simp add: str_int_def length_digits_of)

lemma format_0d_zero_padded: "0 \<le> n \<Longrightarrow> format_0d w n = zero_padded w (nat n)"
  by (simp add: format_0d_def zero_padded_def Let_def)

lemma default_name_spec:
  assumes "0 \<le> index" and "0 \<le> total'"
  shows "default_name opts stem ext index total' =
           prefix opts @ stem
           @ (if add_number opts
              then ''_'' @ zero_padded (decimal_width (nat total')) (nat (index + 1)) else [])
           @ suffix opts
           @ (case new_ext opts of
                None \<Rightarrow> ext
              | Some e \<Rightarrow> if e \<noteq> [] then ''.'' @ e else ext)"
  using assms
  by (simp add: default_name_def Let_def length_str_int format_0d_zero_padded)

lemma names_5:
  "map (\<lambda>i. fst (generate_new_name plain_protocol (init [] [] True [] [] False None False)
                   ''f.txt'' (int i) 5)) [0 ..< 5]
   = [Inr ''f_1.txt'', Inr ''f_2.txt'', Inr ''f_3.txt'', Inr ''f_4.txt'', Inr ''f_5.txt'']"
  by code_simp

lemma names_15:
  "map (\<lambda>i. fst (generate_new_name plain_protocol (init [] [] True [] [] False None False)
                   ''f.txt'' (int i) 15)) [0 ..< 15]
   = [Inr ''f_01.txt'', Inr ''f_02.txt'', Inr ''f_03.txt'', Inr ''f_04.txt'', Inr ''f_05.txt'',
      Inr ''f_06.txt'', Inr ''f_07.txt'', Inr ''f_08.txt'', Inr ''f_09.txt'', Inr ''f_10.txt'',
      Inr ''f_11.txt'', Inr ''f_12.txt'', Inr ''f_13.txt'', Inr ''f_14.txt'', Inr ''f_15.txt'']"
  by code_simp

lemma widths: "decimal_width 0 = 1 \<and> decimal_width 1 = 1 \<and> decimal_width 42 = 2"
  by code_simp

text \<open>
  Claim C4. Without a pattern, for an index and a total that are not negative, the
  generated name is the prefix, the stem, then (with \<open>add_number\<close>) an underscore and
  \<open>index + 1\<close> padded with zeros to the number of decimal digits of the total, then the
  suffix, and last the extension: a dot and the new extension when one is set (present
  and not empty), the original extension otherwise. The width is 1 for the totals 0 and
  1; with the total 5 the numbers are \<open>_1\<close> to \<open>_5\<close>, with the total 15 \<open>_01\<close> to \<open>_15\<close>.
\<close>

theorem default_rule:
  "(pattern opts = [] \<and> 0 \<le> index \<and> 0 \<le> total' \<longrightarrow>
      generate_new_name lib opts original_name index total' =
        (Inr (prefix opts @ py_stem original_name
              @ (if add_number opts
                 then ''_'' @ zero_padded (decimal_width (nat total')) (nat (index + 1)) else [])
              @ suffix opts
              @ (case new_ext opts of
                   None \<Rightarrow> py_suffix original_name
                 | Some e \<Rightarrow> if e \<noteq> [] then ''.'' @ e else py_suffix original_name)),
         []))
   \<and> decimal_width 0 = 1 \<and> decimal_width 1 = 1 \<and> decimal_width 42 = 2
   \<and> map (\<lambda>i. fst (generate_new_name plain_protocol (init [] [] True [] [] False None False)
                      ''f.txt'' (int i) 5)) [0 ..< 5]
      = [Inr ''f_1.txt'', Inr ''f_2.txt'', Inr ''f_3.txt'', Inr ''f_4.txt'', Inr ''f_5.txt'']
   \<and> map (\<lambda>i. fst (generate_new_name plain_protocol (init [] [] True [] [] False None False)
                      ''f.txt'' (int i) 15)) [0 ..< 15]
      = [Inr ''f_01.txt'', Inr ''f_02.txt'', Inr ''f_03.txt'', Inr ''f_04.txt'', Inr ''f_05.txt'',
         Inr ''f_06.txt'', Inr ''f_07.txt'', Inr ''f_08.txt'', Inr ''f_09.txt'', Inr ''f_10.txt'',
         Inr ''f_11.txt'', Inr ''f_12.txt'', Inr ''f_13.txt'', Inr ''f_14.txt'', Inr ''f_15.txt'']"
proof (intro conjI impI)
  assume h: "pattern opts = [] \<and> 0 \<le> index \<and> 0 \<le> total'"
  then show "generate_new_name lib opts original_name index total' =
        (Inr (prefix opts @ py_stem original_name
              @ (if add_number opts
                 then ''_'' @ zero_padded (decimal_width (nat total')) (nat (index + 1)) else [])
              @ suffix opts
              @ (case new_ext opts of
                   None \<Rightarrow> py_suffix original_name
                 | Some e \<Rightarrow> if e \<noteq> [] then ''.'' @ e else py_suffix original_name)),
         [])"
    by (simp add: generate_new_name_def Let_def default_name_spec)
qed (use widths names_5 names_15 in simp_all)

lemma name_parts: "py_stem ''photo.JPG'' = ''photo'' \<and> py_suffix ''photo.JPG'' = ''.JPG''
  \<and> zero_padded (decimal_width (nat 120)) (nat (6 + 1)) = ''007''"
  by code_simp

theorem default_rule_witness:
  "pattern (init ''IMG_'' ''_v'' True ''.PNG'' [] False None False) = []
   \<and> (0::int) \<le> 6 \<and> (0::int) \<le> 120
   \<and> generate_new_name plain_protocol (init ''IMG_'' ''_v'' True ''.PNG'' [] False None False)
        ''photo.JPG'' 6 120 = (Inr ''IMG_photo_007_v.png'', [])"
proof -
  let ?opts = "init ''IMG_'' ''_v'' True ''.PNG'' [] False None False"
  have o: "pattern ?opts = []" "prefix ?opts = ''IMG_''" "suffix ?opts = ''_v''"
    "add_number ?opts" "new_ext ?opts = Some ''png''"
    by (simp_all add: init_def lower_def lower_char_def lstrip_dot_def)
  from default_rule [of ?opts 6 120 plain_protocol "''photo.JPG''", THEN conjunct1] o name_parts
  show ?thesis by simp
qed

section \<open>Patterns\<close>













section \<open>Names that begin with a dot\<close>

lemma rfind_dot_None: "CHR ''.'' \<notin> set s \<Longrightarrow> rfind_dot s = None"
  by (induction s) auto

lemma dot_name_split:
  assumes "CHR ''.'' \<notin> set rest"
  shows "name_stem (CHR ''.'' # rest) = CHR ''.'' # rest \<and> name_suffix (CHR ''.'' # rest) = []"
  using rfind_dot_None [OF assms] by (simp add: name_stem_def name_suffix_def)

lemma split_sep_plain: "CHR ''/'' \<notin> set s \<Longrightarrow> split_sep acc s = [acc @ s]"
  by (induction s arbitrary: acc) auto

lemma parse_parts_name:
  assumes "CHR ''/'' \<notin> set s" and "s \<noteq> []" and "s \<noteq> ''.''"
  shows "name (parse_parts s) = s"
  using assms split_sep_plain [of s "[]"] by (simp add: parse_parts_def name_def)

lemma dot_name_py:
  assumes "rest \<noteq> []" and "CHR ''.'' \<notin> set rest" and "CHR ''/'' \<notin> set rest"
  shows "py_stem (CHR ''.'' # rest) = CHR ''.'' # rest \<and> py_suffix (CHR ''.'' # rest) = []"
proof -
  have "name (parse_parts (CHR ''.'' # rest)) = CHR ''.'' # rest"
    using assms by (intro parse_parts_name) simp_all
  then show ?thesis
    using dot_name_split [OF assms(2)] by (simp add: py_stem_def py_suffix_def)
qed

lemma dot_name_filtered:
  assumes "CHR ''.'' \<notin> set rest" and "filter_ext opts = Some exts" and "exts \<noteq> []"
    and "name p = CHR ''.'' # rest"
  shows "should_process_file opts fs0 p = (is_file fs0 p \<and> [] \<in> set exts)"
  using assms dot_name_split [OF assms(1)]
  by (simp add: should_process_file_def Let_def lower_def lstrip_dot_def)

lemma gitignore_facts:
  "''gitignore'' \<noteq> [] \<and> CHR ''.'' \<notin> set ''gitignore'' \<and> CHR ''/'' \<notin> set ''gitignore''
   \<and> name [''d'', ''.gitignore''] = CHR ''.'' # ''gitignore''
   \<and> is_file dir_dot [''d'', ''.gitignore'']"
  by code_simp

lemma gitignore_default:
  "default_name (init ''x_'' ''_y'' False [] [] False (Some [''txt'']) False)
     (CHR ''.'' # ''gitignore'') [] 0 1 = ''x_.gitignore_y''"
  by code_simp

text \<open>
  Claim C10, as amended. A file name that begins with a dot and has no other dot is its
  own stem and has the empty extension. Name generation then appends no extension unless a
  new one is set: without a pattern the name is the default name built from the whole
  name, with a pattern it is the rendered text. With a filter such a file is processed
  exactly when it is a regular file and the filter contains the empty extension; so it is
  never a candidate when no entry of the filter is empty after normalisation.
\<close>

theorem dotfile_no_extension:
  "(CHR ''.'' \<notin> set rest \<longrightarrow>
      name_stem (CHR ''.'' # rest) = CHR ''.'' # rest \<and> name_suffix (CHR ''.'' # rest) = [])
   \<and> (rest \<noteq> [] \<and> CHR ''.'' \<notin> set rest \<and> CHR ''/'' \<notin> set rest
       \<and> (new_ext opts = None \<or> new_ext opts = Some []) \<longrightarrow>
      (pattern opts = [] \<longrightarrow>
         fst (generate_new_name lib opts (CHR ''.'' # rest) index total')
           = Inr (default_name opts (CHR ''.'' # rest) [] index total')
         \<and> default_name opts (CHR ''.'' # rest) [] index total'
           = prefix opts @ CHR ''.'' # rest
             @ (if add_number opts
                then ''_'' @ format_0d (length (str_int total')) (index + 1) else [])
             @ suffix opts)
      \<and> (pattern opts \<noteq> []
          \<and> py_format lib (pattern opts) index (CHR ''.'' # rest) total' = Inr rendered \<longrightarrow>
         fst (generate_new_name lib opts (CHR ''.'' # rest) index total') = Inr rendered))
   \<and> (CHR ''.'' \<notin> set rest \<and> filter_ext opts = Some exts \<and> exts \<noteq> []
       \<and> name p = CHR ''.'' # rest \<longrightarrow>
      should_process_file opts fs0 p = (is_file fs0 p \<and> [] \<in> set exts))"
proof (intro conjI impI)
  assume "CHR ''.'' \<notin> set rest"
  from dot_name_split [OF this]
  show "name_stem (CHR ''.'' # rest) = CHR ''.'' # rest" and "name_suffix (CHR ''.'' # rest) = []"
    by simp_all
next
  assume h: "rest \<noteq> [] \<and> CHR ''.'' \<notin> set rest \<and> CHR ''/'' \<notin> set rest
       \<and> (new_ext opts = None \<or> new_ext opts = Some [])"
  then have py: "py_stem (CHR ''.'' # rest) = CHR ''.'' # rest" "py_suffix (CHR ''.'' # rest) = []"
    using dot_name_py [of rest] by simp_all
  {
    assume "pattern opts = []"
    then show "fst (generate_new_name lib opts (CHR ''.'' # rest) index total')
           = Inr (default_name opts (CHR ''.'' # rest) [] index total')"
      by (simp add: generate_new_name_def Let_def py)
  next
    show "default_name opts (CHR ''.'' # rest) [] index total'
           = prefix opts @ CHR ''.'' # rest
             @ (if add_number opts
                then ''_'' @ format_0d (length (str_int total')) (index + 1) else [])
             @ suffix opts"
      using h by (auto simp: default_name_def Let_def)
  next
    assume "pattern opts \<noteq> []
          \<and> py_format lib (pattern opts) index (CHR ''.'' # rest) total' = Inr rendered"
    then show "fst (generate_new_name lib opts (CHR ''.'' # rest) index total') = Inr rendered"
      using h by (auto simp: generate_new_name_def Let_def py)
  }
next
  assume "CHR ''.'' \<notin> set rest \<and> filter_ext opts = Some exts \<and> exts \<noteq> []
       \<and> name p = CHR ''.'' # rest"
  then show "should_process_file opts fs0 p = (is_file fs0 p \<and> [] \<in> set exts)"
    using dot_name_filtered [of rest opts exts p fs0] by simp
qed

theorem dotfile_no_extension_witness:
  "CHR ''.'' \<notin> set ''gitignore''
   \<and> name_stem ''.gitignore'' = ''.gitignore'' \<and> name_suffix ''.gitignore'' = []
   \<and> fst (generate_new_name plain_protocol
        (init ''x_'' ''_y'' False [] [] False (Some [''txt'']) False) ''.gitignore'' 0 1)
      = Inr ''x_.gitignore_y''
   \<and> fst (generate_new_name plain_protocol
        (init [] [] False [] ''file_{index:03d}'' False None False) ''.gitignore'' 4 10)
      = Inr ''file_004''
   \<and> \<not> should_process_file (init ''x_'' ''_y'' False [] [] False (Some [''txt'']) False)
        dir_dot [''d'', ''.gitignore'']"
proof -
  let ?o1 = "init ''x_'' ''_y'' False [] [] False (Some [''txt'']) False"
  let ?o2 = "init [] [] False [] ''file_{index:03d}'' False None False"
  have o: "new_ext ?o1 = None" "pattern ?o1 = []" "filter_ext ?o1 = Some [''txt'']"
    "new_ext ?o2 = None" "pattern ?o2 = ''file_{index:03d}''"
    by (simp_all add: init_def lower_def lower_char_def lstrip_dot_def)
  have f: "py_format plain_protocol ''file_{index:03d}'' 4 ''.gitignore'' 10 = Inr ''file_004''"
    by code_simp
  have a: "name_stem ''.gitignore'' = ''.gitignore'' \<and> name_suffix ''.gitignore'' = []"
    using dotfile_no_extension [of "''gitignore''", THEN conjunct1] gitignore_facts by simp
  have b: "fst (generate_new_name plain_protocol ?o1 ''.gitignore'' 0 1) = Inr ''x_.gitignore_y''"
    using dotfile_no_extension [of "''gitignore''" ?o1 plain_protocol 0 1,
        THEN conjunct2, THEN conjunct1] gitignore_facts o gitignore_default
    by simp
  have c: "fst (generate_new_name plain_protocol ?o2 ''.gitignore'' 4 10) = Inr ''file_004''"
    using dotfile_no_extension [of "''gitignore''" ?o2 plain_protocol 4 10 "''file_004''",
        THEN conjunct2, THEN conjunct1] gitignore_facts o f
    by simp
  have d: "\<not> should_process_file ?o1 dir_dot [''d'', ''.gitignore'']"
    using dotfile_no_extension [of "''gitignore''" ?o1 _ _ _ _ "[''txt'']"
        "[''d'', ''.gitignore'']" dir_dot,
        THEN conjunct2, THEN conjunct2] gitignore_facts o
    by simp
  from a b c d gitignore_facts show ?thesis by simp
qed

theorem dotfile_filter_counterexample:
  "should_process_file (init [] [] False [] [] False (Some [''.'']) False)
     dir_dot [''d'', ''.gitignore'']
   \<and> collect_files (init [] [] False [] [] False (Some [''.'']) False) dir_dot [''d'']
      = [[''d'', ''.gitignore'']]"
  by code_simp

section \<open>Failures of the rename call\<close>

text \<open>
  Claim C3 does not hold of \<open>_rename_file\<close>: an exception of \<open>os.rename\<close> is caught there,
  logged as an error, and answered with \<open>False\<close>, which the loop counts as a skip. With the
  prefix \<open>x/\<close> and no directory \<open>x\<close> the rename of \<open>a.txt\<close> fails with \<open>FileNotFoundError\<close>;
  in a read-only directory it fails with \<open>PermissionError\<close>. Both runs end with
  \<open>skipped = 1\<close> and \<open>errors = 0\<close>.
\<close>

theorem rename_failure_counted_as_skipped:
  "rename_files plain_protocol (init ''x/'' [] False [] [] False None False) dir_a [''d'']
     = Inr \<lparr> total_files = 1, renamed = 0, skipped = 1, errors = 0, disk = dir_a,
             logged = [TotalFiles 1, RenameFailed ''a.txt'' FileNotFoundError],
             generated = [(0, [''d'', ''a.txt''], Inr ''x/a.txt'')] \<rparr>
   \<and> rename_files plain_protocol (init ''N_'' [] False [] [] False None False) dir_a_readonly
        [''d'']
     = Inr \<lparr> total_files = 1, renamed = 0, skipped = 1, errors = 0, disk = dir_a_readonly,
             logged = [TotalFiles 1, RenameFailed ''a.txt'' PermissionError],
             generated = [(0, [''d'', ''a.txt''], Inr ''N_a.txt'')] \<rparr>
   \<and> level_of (RenameFailed ''a.txt'' PermissionError) = ERROR"
  by code_simp

section \<open>The summary of a dry run\<close>

text \<open>
  Claim C9 does not hold of \<open>main\<close>: in a dry run the summary prints \<open>total\<close>, the number
  of files collected, where the claim has the number of files that would change. For a
  directory with the one file \<open>a.txt\<close> and no option but \<open>--dry-run\<close>, nothing would change
  (\<open>renamed = 0\<close>, \<open>skipped = 1\<close>) and the summary says that 1 file is expected to be changed.
\<close>

theorem preview_summary_prints_total:
  "rename_files plain_protocol (init [] [] False [] [] False None True) dir_a [''d'']
     = Inr \<lparr> total_files = 1, renamed = 0, skipped = 1, errors = 0, disk = dir_a,
             logged = [TotalFiles 1, SkipSame ''a.txt''],
             generated = [(0, [''d'', ''a.txt''], Inr ''a.txt'')] \<rparr>
   \<and> summary True \<lparr> total_files = 1, renamed = 0, skipped = 1, errors = 0, disk = dir_a,
             logged = [TotalFiles 1, SkipSame ''a.txt''],
             generated = [(0, [''d'', ''a.txt''], Inr ''a.txt'')] \<rparr>
     = [CHR 0x0A # ''[Preview mode] 1 files are expected to be changed.'']
   \<and> summary False \<lparr> total_files = 1, renamed = 0, skipped = 1, errors = 0, disk = dir_a,
             logged = [TotalFiles 1, SkipSame ''a.txt''],
             generated = [(0, [''d'', ''a.txt''], Inr ''a.txt'')] \<rparr>
     = [CHR 0x0A # ''Successfully changed the names of 0 files.'', ''1 files were skipped.'']"
  by code_simp

end
